theory Spec2Isabelle
  imports Main "HOL-Library.Char_ord" "HOL-Library.List_Lexorder"
begin

section \<open>Python values used by the scripts\<close>

text \<open>
  A Python \<open>dict[str, str]\<close> is an association list in insertion order with
  distinct keys. \<open>d.get(k)\<close> is \<open>dict_get\<close> (\<open>None\<close> for a missing key),
  \<open>d.setdefault(k, v)\<close> inserts only when the key is absent.
\<close>

type_synonym pydict = "(string \<times> string) list"

definition dict_get :: "pydict \<Rightarrow> string \<Rightarrow> string option" where
  "dict_get d k = map_of d k"

definition dict_setdefault :: "string \<Rightarrow> string \<Rightarrow> pydict \<Rightarrow> pydict" where
  "dict_setdefault k v d = (case map_of d k of None \<Rightarrow> d @ [(k, v)] | Some _ \<Rightarrow> d)"

text \<open>
  \<open>set(xs)\<close> of a list of strings, kept as a duplicate-free list. The scripts only
  read its length and, when that is one, its single element.
\<close>

definition py_set :: "string list \<Rightarrow> string list" where
  "py_set xs = remdups xs"

section \<open>Group resolver\<close>

subsection \<open>assign\_groups\_to\_ec\_summary.py: choose\_group\_for\_ecs\<close>

text \<open>The \<open>for ec in ecs\<close> loop, on the pair \<open>(groups, unknown)\<close>.\<close>

fun choose_group_loop :: "string list \<Rightarrow> pydict \<Rightarrow> string list \<times> nat \<Rightarrow> string list \<times> nat" where
  "choose_group_loop [] d (groups, unknown) = (groups, unknown)"
| "choose_group_loop (ec # ecs) d (groups, unknown) =
     (case dict_get d ec of
        None \<Rightarrow> choose_group_loop ecs d (groups, unknown + 1)
      | Some g \<Rightarrow> choose_group_loop ecs d (groups @ [g], unknown))"

definition choose_group_for_ecs :: "string list \<Rightarrow> pydict \<Rightarrow> string" where
  "choose_group_for_ecs ecs ec_to_group =
     (if ecs = [] then ''NO_EC''
      else
        (case choose_group_loop ecs ec_to_group ([], 0) of
           (groups, unknown) \<Rightarrow>
             (let groups_set = py_set groups in
              if groups = [] \<and> unknown \<noteq> 0 then ''UNKNOWN''
              else if groups \<noteq> [] \<and> unknown \<noteq> 0 then ''MIXED''
              else if length groups_set = 1 then hd groups_set
              else ''MULTIPLE'')))"

subsection \<open>split\_mt2\_by\_group.py: decide\_row\_group\<close>

fun decide_row_loop :: "string list \<Rightarrow> pydict \<Rightarrow> string list \<times> nat \<Rightarrow> string list \<times> nat" where
  "decide_row_loop [] d (groups, unknown) = (groups, unknown)"
| "decide_row_loop (ec # ec_list) d (groups, unknown) =
     (case dict_get d ec of
        None \<Rightarrow> decide_row_loop ec_list d (groups, unknown + 1)
      | Some g \<Rightarrow> decide_row_loop ec_list d (groups @ [g], unknown))"

definition decide_row_group :: "string list \<Rightarrow> pydict \<Rightarrow> string" where
  "decide_row_group ec_list ec_to_group =
     (if ec_list = [] then ''NO_EC''
      else
        (case decide_row_loop ec_list ec_to_group ([], 0) of
           (groups, unknown) \<Rightarrow>
             if groups = [] \<and> unknown \<noteq> 0 then ''UNKNOWN''
             else if groups \<noteq> [] \<and> unknown \<noteq> 0 then ''MIXED''
             else (let gs = py_set groups in
                   if length gs = 1 then hd gs else ''MULTIPLE'')))"

subsection \<open>The outcome in terms of the looked-up groups\<close>

text \<open>The groups looked up for a list of ECs, and whether some EC is not a key.\<close>

definition mapped_groups :: "string list \<Rightarrow> pydict \<Rightarrow> string set" where
  "mapped_groups ecs d = {g. \<exists>ec \<in> set ecs. dict_get d ec = Some g}"

definition some_unmapped :: "string list \<Rightarrow> pydict \<Rightarrow> bool" where
  "some_unmapped ecs d \<longleftrightarrow> (\<exists>ec \<in> set ecs. dict_get d ec = None)"

text \<open>The outcome as a function of the set of looked-up groups alone.\<close>

definition outcome :: "string list \<Rightarrow> pydict \<Rightarrow> string" where
  "outcome ecs d =
     (if ecs = [] then ''NO_EC''
      else if mapped_groups ecs d = {} \<and> some_unmapped ecs d then ''UNKNOWN''
      else if mapped_groups ecs d \<noteq> {} \<and> some_unmapped ecs d then ''MIXED''
      else if card (mapped_groups ecs d) = 1 then the_elem (mapped_groups ecs d)
      else ''MULTIPLE'')"


section \<open>Python strings\<close>

text \<open>
  A Python \<open>str\<close> is modelled as a \<open>string\<close> whose characters are the code points
  0 to 255. The character tables below are those of Python 3 for these code points:
  \<open>str.isspace\<close> (also the class \<open>\s\<close> and what \<open>str.strip\<close> removes), the decimal
  digits of \<open>\d\<close>, the word characters of \<open>\w\<close> (alphanumerics and the underscore),
  \<open>str.lower\<close>, and the line boundaries of \<open>str.splitlines\<close>.
\<close>

definition ord :: "char \<Rightarrow> nat" where
  "ord c = of_char c"

definition isspace :: "char \<Rightarrow> bool" where
  "isspace c \<longleftrightarrow> ord c \<in> {9, 10, 11, 12, 13, 28, 29, 30, 31, 32, 133, 160}"

definition isdecimal :: "char \<Rightarrow> bool" where
  "isdecimal c \<longleftrightarrow> 48 \<le> ord c \<and> ord c \<le> 57"

definition isalnum :: "char \<Rightarrow> bool" where
  "isalnum c \<longleftrightarrow>
     (48 \<le> ord c \<and> ord c \<le> 57) \<or> (65 \<le> ord c \<and> ord c \<le> 90) \<or>
     (97 \<le> ord c \<and> ord c \<le> 122) \<or>
     ord c \<in> {170, 178, 179, 181, 185, 186, 188, 189, 190} \<or>
     (192 \<le> ord c \<and> ord c \<le> 214) \<or> (216 \<le> ord c \<and> ord c \<le> 246) \<or>
     248 \<le> ord c"

definition isword :: "char \<Rightarrow> bool" where
  "isword c \<longleftrightarrow> isalnum c \<or> c = CHR ''_''"

definition lower_char :: "char \<Rightarrow> char" where
  "lower_char c =
     (if (65 \<le> ord c \<and> ord c \<le> 90) \<or> (192 \<le> ord c \<and> ord c \<le> 222 \<and> ord c \<noteq> 215)
      then char_of (ord c + 32) else c)"

definition lower :: "string \<Rightarrow> string" where
  "lower s = map lower_char s"

definition strip :: "string \<Rightarrow> string" where
  "strip s = rev (dropWhile isspace (rev (dropWhile isspace s)))"

definition startswith :: "string \<Rightarrow> string \<Rightarrow> bool" where
  "startswith s p \<longleftrightarrow> take (length p) s = p"

text \<open>\<open>p in s\<close> for strings: \<open>p\<close> occurs in \<open>s\<close> at some position.\<close>

fun contains :: "string \<Rightarrow> string \<Rightarrow> bool" where
  "contains [] p = (p = [])"
| "contains (c # cs) p = (take (length p) (c # cs) = p \<or> contains cs p)"

definition islinebreak :: "char \<Rightarrow> bool" where
  "islinebreak c \<longleftrightarrow> ord c \<in> {10, 11, 12, 13, 28, 29, 30, 133}"

text \<open>
  \<open>s.splitlines()\<close>: the accumulator is the current line, reversed. A carriage return
  followed by a line feed is one boundary; a final line without a boundary is kept; a
  text that ends at a boundary has no further empty line.
\<close>

fun splitlines_acc :: "string \<Rightarrow> string \<Rightarrow> string list" where
  "splitlines_acc acc [] = (if acc = [] then [] else [rev acc])"
| "splitlines_acc acc (c # cs) =
     (if islinebreak c then
        (if c = CHR 0x0D \<and> cs \<noteq> [] \<and> hd cs = CHR 0x0A
         then rev acc # splitlines_acc [] (tl cs)
         else rev acc # splitlines_acc [] cs)
      else splitlines_acc (c # acc) cs)"

definition splitlines :: "string \<Rightarrow> string list" where
  "splitlines s = splitlines_acc [] s"

text \<open>\<open>s.split(sep)\<close> for a one-character separator; the result is never empty.\<close>

fun split_acc :: "char \<Rightarrow> string \<Rightarrow> string \<Rightarrow> string list" where
  "split_acc sep acc [] = [rev acc]"
| "split_acc sep acc (c # cs) =
     (if c = sep then rev acc # split_acc sep [] cs else split_acc sep (c # acc) cs)"

definition split :: "string \<Rightarrow> char \<Rightarrow> string list" where
  "split s sep = split_acc sep [] s"

text \<open>\<open>s.split(sep, 1)\<close>: at most one split, at the first separator.\<close>

definition split1 :: "string \<Rightarrow> char \<Rightarrow> string list" where
  "split1 s sep =
     (if sep \<in> set s
      then [takeWhile (\<lambda>c. c \<noteq> sep) s, tl (dropWhile (\<lambda>c. c \<noteq> sep) s)]
      else [s])"


section \<open>Regular expressions of the \<open>re\<close> module\<close>

text \<open>
  The fragment of \<open>re\<close> patterns the scripts use: literals, the classes \<open>\d\<close>,
  \<open>\s\<close> and bracketed sets, greedy \<open>+\<close> and \<open>*\<close> over a class, the word boundary
  \<open>\b\<close>, concatenation and ordered alternation. A non-capturing group \<open>(?:...)\<close> is
  the pattern inside it.
\<close>

datatype cclass = Digit | Space | OneOf string | Ranges "(char \<times> char) list"

datatype regex =
    Eps
  | Lits string
  | Class cclass
  | Plus cclass
  | Star cclass
  | WordB
  | Seq regex regex
  | Alt regex regex

fun cat :: "regex list \<Rightarrow> regex" where
  "cat [] = Eps"
| "cat [r] = r"
| "cat (r # rs) = Seq r (cat rs)"

fun in_class :: "cclass \<Rightarrow> char \<Rightarrow> bool" where
  "in_class Digit c = isdecimal c"
| "in_class Space c = isspace c"
| "in_class (OneOf cs) c = (c \<in> set cs)"
| "in_class (Ranges rs) c = list_ex (\<lambda>(lo, hi). ord lo \<le> ord c \<and> ord c \<le> ord hi) rs"

text \<open>
  A literal character of the pattern against a character of the text; under
  \<open>re.IGNORECASE\<close> both are compared in lower case.
\<close>

definition chr_eq :: "bool \<Rightarrow> char \<Rightarrow> char \<Rightarrow> bool" where
  "chr_eq ic p c \<longleftrightarrow> (if ic then lower_char c = lower_char p else c = p)"

text \<open>
  A position in the text being matched: the character just before the position
  (\<open>None\<close> at the start of the text) and the text from the position on.
\<close>

type_synonym pos = "char option \<times> string"

text \<open>The literals \<open>l\<close> at a position: the position after them, if they are there.\<close>

fun lits_from :: "bool \<Rightarrow> string \<Rightarrow> pos \<Rightarrow> pos list" where
  "lits_from ic [] p = [p]"
| "lits_from ic (l # ls) (prev, []) = []"
| "lits_from ic (l # ls) (prev, x # xs) =
     (if chr_eq ic l x then lits_from ic ls (Some x, xs) else [])"

text \<open>
  The positions after one or more characters of a class, the furthest first: the
  order in which a greedy repetition gives characters back.
\<close>

fun run_from :: "cclass \<Rightarrow> pos \<Rightarrow> pos list" where
  "run_from c (prev, []) = []"
| "run_from c (prev, x # xs) =
     (if in_class c x then run_from c (Some x, xs) @ [(Some x, xs)] else [])"

text \<open>
  \<open>\b\<close> at a position: exactly one of the characters before and after the position
  is a word character; outside the text there is none.
\<close>

fun word_before :: "pos \<Rightarrow> bool" where
  "word_before (None, rest) = False"
| "word_before (Some c, rest) = isword c"

fun word_after :: "pos \<Rightarrow> bool" where
  "word_after (prev, []) = False"
| "word_after (prev, x # xs) = isword x"

definition boundary :: "pos \<Rightarrow> bool" where
  "boundary p \<longleftrightarrow> word_before p \<noteq> word_after p"

text \<open>
  The backtracking matcher: \<open>ends ic r p\<close> lists the positions where a match of
  \<open>r\<close> that starts at position \<open>p\<close> can end, in the order in which the matcher
  tries them (a greedy repetition tries the longest run first, an alternation its left
  branch first). The match found is the first of the list.
\<close>

fun ends :: "bool \<Rightarrow> regex \<Rightarrow> pos \<Rightarrow> pos list" where
  "ends ic Eps p = [p]"
| "ends ic (Lits l) p = lits_from ic l p"
| "ends ic (Class c) p =
     (case snd p of [] \<Rightarrow> [] | x # xs \<Rightarrow> if in_class c x then [(Some x, xs)] else [])"
| "ends ic (Plus c) p = run_from c p"
| "ends ic (Star c) p = run_from c p @ [p]"
| "ends ic WordB p = (if boundary p then [p] else [])"
| "ends ic (Seq r1 r2) p = concat (map (ends ic r2) (ends ic r1 p))"
| "ends ic (Alt r1 r2) p = ends ic r1 p @ ends ic r2 p"

text \<open>\<open>pattern.search(s)\<close> as a truth value: a match starts at some position.\<close>

fun search_from :: "bool \<Rightarrow> regex \<Rightarrow> pos \<Rightarrow> bool" where
  "search_from ic r (prev, []) = (ends ic r (prev, []) \<noteq> [])"
| "search_from ic r (prev, x # xs) =
     (ends ic r (prev, x # xs) \<noteq> [] \<or> search_from ic r (Some x, xs))"

definition re_search :: "bool \<Rightarrow> regex \<Rightarrow> string \<Rightarrow> bool" where
  "re_search ic r s = search_from ic r (None, s)"

text \<open>
  \<open>pattern.fullmatch(s)\<close> as a truth value: some way of matching from the start ends
  at the end of the text.
\<close>

definition re_fullmatch :: "bool \<Rightarrow> regex \<Rightarrow> string \<Rightarrow> bool" where
  "re_fullmatch ic r s \<longleftrightarrow> list_ex (\<lambda>p. snd p = []) (ends ic r (None, s))"

text \<open>
  \<open>re.match(pattern, s)\<close> for a pattern \<open>pre(grp)post\<close> with one capturing group:
  the text of the group in the first successful way of matching from the start.
\<close>

definition re_match_group1 :: "bool \<Rightarrow> regex \<Rightarrow> regex \<Rightarrow> regex \<Rightarrow> string \<Rightarrow> string option" where
  "re_match_group1 ic pre grp post s =
     (case concat (map (\<lambda>a. concat (map (\<lambda>b. map (\<lambda>c. (a, b)) (ends ic post b))
                                        (ends ic grp a)))
                       (ends ic pre (None, s))) of
        [] \<Rightarrow> None
      | (a, b) # _ \<Rightarrow> Some (take (length (snd a) - length (snd b)) (snd a)))"

text \<open>
  \<open>pattern.findall(s)\<close> for a pattern without capturing groups: the matches found
  from left to right, each search resuming where the previous match ended (one
  character further where the match is empty or nothing matches).
\<close>

function findall_from :: "bool \<Rightarrow> regex \<Rightarrow> pos \<Rightarrow> string list" where
  "findall_from ic r (prev, rest) =
     (case ends ic r (prev, rest) of
        [] \<Rightarrow> (case rest of [] \<Rightarrow> [] | x # xs \<Rightarrow> findall_from ic r (Some x, xs))
      | (prev', rest') # _ \<Rightarrow>
          if length rest' < length rest
          then take (length rest - length rest') rest # findall_from ic r (prev', rest')
          else [] # (case rest of [] \<Rightarrow> [] | x # xs \<Rightarrow> findall_from ic r (Some x, xs)))"
  by pat_completeness auto
termination
  by (relation "measure (\<lambda>(ic, r, p). length (snd p))") auto

declare findall_from.simps [simp del]

definition findall :: "bool \<Rightarrow> regex \<Rightarrow> string \<Rightarrow> string list" where
  "findall ic r s = findall_from ic r (None, s)"

text \<open>
  For statements about matches: the position \<open>k\<close> characters into a text \<open>s\<close>
  that follows the character \<open>prev\<close>, the position \<open>k\<close> of a whole text, and
  the first position a match of \<open>r\<close> from \<open>p\<close> ends at.
\<close>

definition pos_after :: "char option \<Rightarrow> string \<Rightarrow> nat \<Rightarrow> pos" where
  "pos_after prev s k = ((if k = 0 then prev else Some (s ! (k - 1))), drop k s)"

definition pos_at :: "string \<Rightarrow> nat \<Rightarrow> pos" where
  "pos_at s k = pos_after None s k"

definition first_end :: "bool \<Rightarrow> regex \<Rightarrow> pos \<Rightarrow> pos \<Rightarrow> bool" where
  "first_end ic r p q \<longleftrightarrow> (case ends ic r p of [] \<Rightarrow> False | e # _ \<Rightarrow> e = q)"


section \<open>ec\_to\_type.py: the name classifier\<close>

text \<open>
  The compiled patterns, all with \<open>re.IGNORECASE\<close>. The class of \<open>RE_2P_O\<close> holds
  the apostrophe and the prime U+2032; the prime is not among the code points of the
  model, so the class is the apostrophe alone.
\<close>

definition RE_2P_O :: regex where
  "RE_2P_O = cat [Lits ''2'', Class (OneOf [CHR 0x27]), Lits ''-o'']"

definition RE_O_MT :: regex where
  "RE_O_MT = cat [WordB, Lits ''o-methyltransferase'', WordB]"

definition RE_N_MT :: regex where
  "RE_N_MT = cat [WordB, Lits ''n-methyltransferase'', WordB]"

definition RE_N_PAREN :: regex where
  "RE_N_PAREN = Alt (cat [WordB, Lits ''n('', Plus Digit, Lits '')'']) (Lits ''n(alpha)'')"

definition RE_C_MT :: regex where
  "RE_C_MT = cat [WordB, Lits ''c-methyltransferase'', WordB]"

definition RE_C_PAREN :: regex where
  "RE_C_PAREN = cat [WordB, Lits ''c('', Plus Digit, Lits '')'']"

definition RE_CYTOSINE_5 :: regex where
  "RE_CYTOSINE_5 = Lits ''cytosine-5''"

definition RE_S_MT :: regex where
  "RE_S_MT = cat [WordB, Lits ''s-methyltransferase'', WordB]"

definition RE_S_HINT :: regex where
  "RE_S_HINT =
     Alt (cat [WordB, Lits ''thiol'', WordB])
       (Alt (cat [WordB, Lits ''thioether'', WordB])
          (Alt (cat [WordB, Lits ''cysteine'', WordB])
               (cat [WordB, Lits ''mercaptan'', WordB])))"

definition RE_CO_MT :: regex where
  "RE_CO_MT = cat [WordB, Lits ''co-methyltransferase'', WordB]"

definition RE_MT_WORD :: regex where
  "RE_MT_WORD = cat [WordB, Lits ''methyltransferase'', WordB]"

definition classify :: "string \<Rightarrow> string \<Rightarrow> string" where
  "classify name status =
     (if status = ''TRANSFERRED'' then ''TRANSFERRED''
      else if status = ''DELETED'' then ''DELETED''
      else if re_search True RE_CO_MT name then ''OTHER''
      else if re_search True RE_2P_O name \<or> re_search True RE_O_MT name then ''O_MT''
      else if re_search True RE_N_MT name \<or> re_search True RE_N_PAREN name then ''N_MT''
      else if re_search True RE_C_MT name \<or> re_search True RE_C_PAREN name
              \<or> re_search True RE_CYTOSINE_5 name then ''C_MT''
      else
        (let low = lower name in
         if re_search True RE_S_MT name \<or>
            (re_search True RE_MT_WORD name \<and> re_search True RE_S_HINT name
             \<and> \<not> contains low ''s-adenosyl'')
         then ''S_MT''
         else if re_search True RE_MT_WORD name then ''UNCLEAR''
         else ''OTHER''))"


section \<open>EC numbers in text\<close>

text \<open>
  \<open>EC_REGEX\<close> is compiled from the same pattern, without flags, in
  \<open>MT_split_by_ec.py\<close>, \<open>assign_groups_to_ec_summary.py\<close> and
  \<open>split_mt2_by_group.py\<close>.
\<close>

definition EC_REGEX :: regex where
  "EC_REGEX =
     cat [WordB, Plus Digit, Lits ''.'', Plus Digit, Lits ''.'', Plus Digit, Lits ''.'',
          Alt (Plus Digit) (Lits ''-''), WordB]"

subsection \<open>MT\_split\_by\_ec.py: extract\_ec\_list\<close>

text \<open>
  The argument is \<open>Some s\<close> for a \<open>str\<close> and \<open>None\<close> for any other value (the
  \<open>isinstance\<close> test). \<open>sorted\<close> orders strings by their code points.
\<close>

definition extract_ec_list :: "string option \<Rightarrow> string list" where
  "extract_ec_list v =
     (case v of
        None \<Rightarrow> []
      | Some s \<Rightarrow> (let ecs = findall False EC_REGEX s in sort (py_set ecs)))"

text \<open>A numeric component of an EC number: one or more decimal digits.\<close>

definition numeric :: "string \<Rightarrow> bool" where
  "numeric ds \<longleftrightarrow> ds \<noteq> [] \<and> list_all isdecimal ds"


section \<open>Parsers of the grouped reference\<close>

definition TAB :: char where
  "TAB = CHR 0x09"

subsection \<open>assign\_groups\_to\_ec\_summary.py: parse\_mt\_grouped\<close>

text \<open>
  The header pattern \<open>#\s*([A-Za-z0-9_]+)\b\<close>, given as the part before the group,
  the group and the part after it.
\<close>

definition HEADER_PRE :: regex where
  "HEADER_PRE = cat [Lits ''#'', Star Space]"

definition HEADER_GROUP :: regex where
  "HEADER_GROUP =
     Plus (Ranges [(CHR ''A'', CHR ''Z''), (CHR ''a'', CHR ''z''), (CHR ''0'', CHR ''9''),
                   (CHR ''_'', CHR ''_'')])"

text \<open>
  The body of the loop over the lines, on the pair of the dictionary and
  \<open>current_group\<close>; every \<open>continue\<close> returns the pair as it is.
\<close>

definition parse_mt_grouped_line :: "pydict \<times> string option \<Rightarrow> string \<Rightarrow> pydict \<times> string option" where
  "parse_mt_grouped_line st raw =
     (case st of (ec_to_group, current_group) \<Rightarrow>
        (let line = strip raw in
         if line = [] then (ec_to_group, current_group)
         else if startswith line ''#'' then
           (ec_to_group, re_match_group1 False HEADER_PRE HEADER_GROUP WordB line)
         else if startswith (lower line) (''ec'' @ [TAB]) then (ec_to_group, current_group)
         else
           (case current_group of
              None \<Rightarrow> (ec_to_group, current_group)
            | Some g \<Rightarrow>
                (case split line TAB of
                   [] \<Rightarrow> (ec_to_group, current_group)
                 | p # _ \<Rightarrow>
                     (let ec = strip p in
                      if re_fullmatch False EC_REGEX ec
                      then (dict_setdefault ec g ec_to_group, current_group)
                      else (ec_to_group, current_group))))))"

definition parse_mt_grouped :: "string \<Rightarrow> pydict" where
  "parse_mt_grouped text = fst (foldl parse_mt_grouped_line ([], None) (splitlines text))"

subsection \<open>split\_mt2\_by\_group.py: parse\_grouped\_sectioned\<close>

text \<open>The header pattern \<open>#\s*([A-Za-z0-9_-]+)\<close>: nothing follows the group.\<close>

definition SECTION_GROUP :: regex where
  "SECTION_GROUP =
     Plus (Ranges [(CHR ''A'', CHR ''Z''), (CHR ''a'', CHR ''z''), (CHR ''0'', CHR ''9''),
                   (CHR ''_'', CHR ''_''), (CHR ''-'', CHR ''-'')])"

text \<open>\<open>s.split(sep, 1)[0]\<close>: the text before the first separator.\<close>

definition first_field :: "string \<Rightarrow> char \<Rightarrow> string" where
  "first_field s sep = takeWhile (\<lambda>c. c \<noteq> sep) s"

definition parse_grouped_sectioned_line :: "pydict \<times> string option \<Rightarrow> string \<Rightarrow> pydict \<times> string option" where
  "parse_grouped_sectioned_line st raw =
     (case st of (ec_to_group, current_group) \<Rightarrow>
        (let line = strip raw in
         if line = [] then (ec_to_group, current_group)
         else if startswith line ''#'' then
           (ec_to_group, re_match_group1 False HEADER_PRE SECTION_GROUP Eps line)
         else if startswith (lower line) (''ec'' @ [TAB]) then (ec_to_group, current_group)
         else
           (case current_group of
              None \<Rightarrow> (ec_to_group, current_group)
            | Some g \<Rightarrow>
                if g = [] then (ec_to_group, current_group)
                else
                  (let ec = strip (first_field line TAB) in
                   if re_fullmatch False EC_REGEX ec
                   then (dict_setdefault ec g ec_to_group, current_group)
                   else (ec_to_group, current_group)))))"

definition parse_grouped_sectioned :: "string \<Rightarrow> pydict" where
  "parse_grouped_sectioned text =
     fst (foldl parse_grouped_sectioned_line ([], None) (splitlines text))"

subsection \<open>The data lines of a sectioned text, in file order\<close>




section \<open>The runs of the scripts\<close>

text \<open>
  A table read by \<open>pd.read_csv(..., dtype=str)\<close> is the list of its columns in
  order, each with its name and its cells; a cell is \<open>None\<close> where the frame holds
  NaN. The runs below take the tables as \<open>read_csv\<close> returns them and the reference
  text as \<open>read_text\<close> returns it, and stop where the group column is computed;
  writing the output files is not part of the model. The row labels of a frame play a
  part only in \<open>MT_split_by_ec.py\<close>, which assigns a series with labels of its own
  into the frame; that run takes the labels as well.
\<close>

type_synonym dataframe = "(string \<times> string option list) list"

definition df_columns :: "dataframe \<Rightarrow> string list" where
  "df_columns df = map fst df"

text \<open>\<open>df[col].fillna("").astype(str)\<close> for a column that is present.\<close>

definition fillna_str :: "string option list \<Rightarrow> string list" where
  "fillna_str cells = map (\<lambda>cell. case cell of None \<Rightarrow> [] | Some s \<Rightarrow> s) cells"

text \<open>\<open>str(row.get(col, ""))\<close>: NaN prints as \<open>nan\<close>.\<close>

definition str_cell :: "string option \<Rightarrow> string" where
  "str_cell cell = (case cell of None \<Rightarrow> ''nan'' | Some s \<Rightarrow> s)"

text \<open>
  The errors the runs raise. The \<open>RuntimeError\<close>s: no mapping was loaded; the
  designated column is missing (with the column asked for and the columns there are);
  the reference table has no EC column or no group column (with the columns there
  are). And the \<open>TypeError\<close> of indexing or joining a NaN.
\<close>

datatype error =
    EmptyMapping
  | ColumnNotFound string "string list"
  | NoEcColumn "string list"
  | NoGroupColumn "string list"
  | TypeError

subsection \<open>split\_mt2\_by\_group.py\<close>

text \<open>The loop of \<open>parse_grouped_table\<close> over the rows, on the two columns.\<close>

fun grouped_table_rows :: "(string option \<times> string option) list \<Rightarrow> pydict \<Rightarrow> pydict" where
  "grouped_table_rows [] ec_to_group = ec_to_group"
| "grouped_table_rows ((ec_cell, group_cell) # rows) ec_to_group =
     (let ec = strip (str_cell ec_cell); group = strip (str_cell group_cell) in
      if re_fullmatch False EC_REGEX ec \<and> group \<noteq> []
      then grouped_table_rows rows (dict_setdefault ec group ec_to_group)
      else grouped_table_rows rows ec_to_group)"

definition parse_grouped_table :: "dataframe \<Rightarrow> error + pydict" where
  "parse_grouped_table df =
     (let ec_candidates =
            filter (\<lambda>c. lower (strip c) \<in> {''ec'', ''ec_number'', ''ec number''}) (df_columns df);
          ec_candidates =
            (if ec_candidates = []
             then filter (\<lambda>c. contains (lower (strip c)) ''ec'') (df_columns df)
             else ec_candidates)
      in
      if ec_candidates = [] then Inl (NoEcColumn (df_columns df))
      else
        (let ec_col = hd ec_candidates;
             group_candidates =
               filter (\<lambda>c. lower (strip c) \<in> {''group'', ''mt_group'', ''mt group''}) (df_columns df);
             group_candidates =
               (if group_candidates = []
                then filter (\<lambda>c. contains (lower (strip c)) ''group'') (df_columns df)
                else group_candidates)
         in
         if group_candidates = [] then Inl (NoGroupColumn (df_columns df))
         else
           (let group_col = hd group_candidates in
            case (map_of df ec_col, map_of df group_col) of
              (Some ec_cells, Some group_cells) \<Rightarrow>
                Inr (grouped_table_rows (zip ec_cells group_cells) [])
            | _ \<Rightarrow> Inr [])))"

text \<open>
  \<open>load_ec_to_group\<close>: the sectioned format first; the table format when that
  yields no mapping. Both read the same file: the text is its content, the table
  what \<open>read_csv\<close> makes of it.
\<close>

definition load_ec_to_group :: "string \<Rightarrow> dataframe \<Rightarrow> error + pydict" where
  "load_ec_to_group key_text key_table =
     (let ec_to_group = parse_grouped_sectioned key_text in
      if ec_to_group \<noteq> [] then Inr ec_to_group else parse_grouped_table key_table)"

text \<open>The run, up to the column \<open>MT_group\<close> of the data set.\<close>

definition split_mt2_main :: "string \<Rightarrow> dataframe \<Rightarrow> string \<Rightarrow> dataframe \<Rightarrow> error + string list" where
  "split_mt2_main key_text key_table ec_col df =
     (case load_ec_to_group key_text key_table of
        Inl e \<Rightarrow> Inl e
      | Inr ec_to_group \<Rightarrow>
          if ec_to_group = [] then Inl EmptyMapping
          else
            (case map_of df ec_col of
               None \<Rightarrow> Inl (ColumnNotFound ec_col (df_columns df))
             | Some cells \<Rightarrow>
                 Inr (map (\<lambda>s. decide_row_group (findall False EC_REGEX s) ec_to_group)
                          (fillna_str cells))))"

subsection \<open>assign\_groups\_to\_ec\_summary.py\<close>

definition assign_groups_main :: "string \<Rightarrow> string \<Rightarrow> dataframe \<Rightarrow> error + string list" where
  "assign_groups_main mt_text ec_col df =
     (let ec_to_group = parse_mt_grouped mt_text in
      if ec_to_group = [] then Inl EmptyMapping
      else
        (case map_of df ec_col of
           None \<Rightarrow> Inl (ColumnNotFound ec_col (df_columns df))
         | Some cells \<Rightarrow>
             Inr (map (\<lambda>s. choose_group_for_ecs (findall False EC_REGEX s) ec_to_group)
                      (fillna_str cells))))"

subsection \<open>MT\_split\_by\_ec.py\<close>

datatype mode = First | Explode | Joined

text \<open>\<open>sep.join(xs)\<close>.\<close>

fun join :: "string \<Rightarrow> string list \<Rightarrow> string" where
  "join sep [] = []"
| "join sep [x] = x"
| "join sep (x # xs) = x @ sep @ join sep xs"

text \<open>
  The label of a row in the index of a frame or a series: an integer, or any other
  label, given by its text. \<open>read_csv\<close> labels the rows 0, 1, 2, ... unless the rows
  of the file have one field more than its header; then the first field of a row is its
  label. A series built from a list is labelled 0, 1, 2, ... . Frames are taken with an
  index of one level.
\<close>

datatype label = IntLabel int | OtherLabel string

definition range_index :: "nat \<Rightarrow> label list" where
  "range_index n = map (\<lambda>i. IntLabel (int i)) [0..<n]"

text \<open>A series: its index and its values.\<close>

type_synonym 'a series = "label list \<times> 'a list"

definition series_map :: "('a \<Rightarrow> 'b) \<Rightarrow> 'a series \<Rightarrow> 'b series" where
  "series_map f ser = (fst ser, map f (snd ser))"

text \<open>
  \<open>df[name] = series\<close>, for a frame with the index \<open>idx\<close>: the cells of the
  new column. When the two indexes are equal (or the frame has no rows) the values are
  taken as they are; otherwise each row gets the value the series has under the row's
  label, and NaN (\<open>None\<close>) when the series has no such label. The series assigned
  here has the index of the frame or distinct labels.
\<close>

definition setitem_align :: "label list \<Rightarrow> 'a series \<Rightarrow> 'a option list" where
  "setitem_align idx ser =
     (case ser of (sidx, vals) \<Rightarrow>
        if sidx = idx \<or> idx = [] then map Some vals
        else map (map_of (zip sidx vals)) idx)"

text \<open>
  The source series of the ECs: the EC column when the table has it, else the
  catalytic-activity column when the table has that, both with the index of the frame;
  else a new series of one empty string per row, \<open>pd.Series([""] * len(df))\<close>.
\<close>

definition ec_source :: "label list \<Rightarrow> dataframe \<Rightarrow> string \<Rightarrow> string \<Rightarrow> string series" where
  "ec_source idx df ec_col cat_col =
     (case map_of df ec_col of
        Some cells \<Rightarrow> (idx, fillna_str cells)
      | None \<Rightarrow>
          (case map_of df cat_col of
             Some cells \<Rightarrow> (idx, fillna_str cells)
           | None \<Rightarrow> (range_index (length idx), replicate (length idx) [])))"

text \<open>
  \<open>df["EC_list"].map(f)\<close> for the two functions that index or join the list of a
  row: on a NaN cell, which is a float and counts as true, they raise \<open>TypeError\<close>.
\<close>

fun map_lists :: "(string list \<Rightarrow> string) \<Rightarrow> string list option list \<Rightarrow> error + string list" where
  "map_lists f [] = Inr []"
| "map_lists f (None # cells) = Inl TypeError"
| "map_lists f (Some xs # cells) =
     (case map_lists f cells of Inl e \<Rightarrow> Inl e | Inr keys \<Rightarrow> Inr (f xs # keys))"

text \<open>
  \<open>explode\<close> followed by \<open>fillna("NO_EC")\<close>: a row appears once for each
  element of its list, and once under \<open>NO_EC\<close> when the list is empty or the cell is
  NaN.
\<close>

definition explode_keys :: "string list option list \<Rightarrow> string list" where
  "explode_keys cells =
     concat (map (\<lambda>cell. case cell of
                             None \<Rightarrow> [''NO_EC'']
                           | Some xs \<Rightarrow> if xs = [] then [''NO_EC''] else xs) cells)"

text \<open>
  The run, for a frame with the row labels \<open>idx\<close> and the columns \<open>df\<close>, up to
  the column \<open>EC_key\<close> the rows are grouped by.
\<close>

definition split_by_ec_main ::
  "label list \<Rightarrow> dataframe \<Rightarrow> string \<Rightarrow> string \<Rightarrow> mode \<Rightarrow> error + string list" where
  "split_by_ec_main idx df ec_col cat_col m =
     (let EC_list =
            setitem_align idx
              (series_map (\<lambda>s. extract_ec_list (Some s)) (ec_source idx df ec_col cat_col))
      in
      case m of
        First \<Rightarrow> map_lists (\<lambda>xs. if xs \<noteq> [] then hd xs else ''NO_EC'') EC_list
      | Joined \<Rightarrow> map_lists (\<lambda>xs. if xs \<noteq> [] then join ''|'' xs else ''NO_EC'') EC_list
      | Explode \<Rightarrow> Inr (explode_keys EC_list))"

text \<open>
  The column \<open>EC_key\<close> for rows that all have a list: what the run computes from
  the EC lists of a source column of the frame itself.
\<close>

fun ec_keys :: "mode \<Rightarrow> string list list \<Rightarrow> string list" where
  "ec_keys First xss = map (\<lambda>xs. if xs \<noteq> [] then hd xs else ''NO_EC'') xss"
| "ec_keys Joined xss = map (\<lambda>xs. if xs \<noteq> [] then join ''|'' xs else ''NO_EC'') xss"
| "ec_keys Explode xss = concat (map (\<lambda>xs. if xs = [] then [''NO_EC''] else xs) xss)"


section \<open>Character tables on the ASCII characters\<close>

text \<open>
  The tables read off the bits of a character (least significant bit first), for
  the characters below 128. They are what the concrete evaluations below rewrite with.
\<close>

lemma isdecimal_ascii:
  "isdecimal (Char b0 b1 b2 b3 b4 b5 b6 False) \<longleftrightarrow>
     \<not> b6 \<and> b5 \<and> b4 \<and> (\<not> b3 \<or> (\<not> b2 \<and> \<not> b1))"
  by (cases b0; cases b1; cases b2; cases b3; cases b4; cases b5; cases b6;
      simp add: isdecimal_def ord_def)

lemma isword_ascii:
  "isword (Char b0 b1 b2 b3 b4 b5 b6 False) \<longleftrightarrow>
     (\<not> b6 \<and> b5 \<and> b4 \<and> (\<not> b3 \<or> (\<not> b2 \<and> \<not> b1))) \<or>
     (b6 \<and> (b0 \<or> b1 \<or> b2 \<or> b3 \<or> b4) \<and> \<not> (b4 \<and> b3 \<and> (b2 \<or> (b1 \<and> b0)))) \<or>
     (b6 \<and> \<not> b5 \<and> b4 \<and> b3 \<and> b2 \<and> b1 \<and> b0)"
  by (cases b0; cases b1; cases b2; cases b3; cases b4; cases b5; cases b6;
      simp add: isword_def isalnum_def ord_def)

lemma isspace_ascii:
  "isspace (Char b0 b1 b2 b3 b4 b5 b6 False) \<longleftrightarrow>
     (\<not> b6 \<and> \<not> b5 \<and> \<not> b4 \<and> b3 \<and> ((\<not> b2 \<and> (b1 \<or> b0)) \<or> (b2 \<and> \<not> b1))) \<or>
     (\<not> b6 \<and> \<not> b5 \<and> b4 \<and> b3 \<and> b2) \<or>
     (\<not> b6 \<and> b5 \<and> \<not> b4 \<and> \<not> b3 \<and> \<not> b2 \<and> \<not> b1 \<and> \<not> b0)"
  by (cases b0; cases b1; cases b2; cases b3; cases b4; cases b5; cases b6;
      simp add: isspace_def ord_def)

lemma islinebreak_ascii:
  "islinebreak (Char b0 b1 b2 b3 b4 b5 b6 False) \<longleftrightarrow>
     (\<not> b6 \<and> \<not> b5 \<and> \<not> b4 \<and> b3 \<and> (b2 \<noteq> b1)) \<or>
     (\<not> b6 \<and> \<not> b5 \<and> b4 \<and> b3 \<and> b2 \<and> \<not> (b1 \<and> b0))"
  by (cases b0; cases b1; cases b2; cases b3; cases b4; cases b5; cases b6;
      simp add: islinebreak_def ord_def)

lemma lower_char_ascii:
  "lower_char (Char b0 b1 b2 b3 b4 b5 b6 False) =
     (if b6 \<and> \<not> b5 \<and> (b0 \<or> b1 \<or> b2 \<or> b3 \<or> b4) \<and> \<not> (b4 \<and> b3 \<and> (b2 \<or> (b1 \<and> b0)))
      then Char b0 b1 b2 b3 b4 True b6 False
      else Char b0 b1 b2 b3 b4 b5 b6 False)"
  by (cases b0; cases b1; cases b2; cases b3; cases b4; cases b5; cases b6;
      simp add: lower_char_def ord_def char_of_eq_iff)

lemmas ascii_tables =
  isdecimal_ascii isword_ascii isspace_ascii islinebreak_ascii lower_char_ascii

lemmas search_eval = re_search_def boundary_def chr_eq_def lower_def ascii_tables

lemmas classify_eval =
  classify_def search_eval
  RE_2P_O_def RE_O_MT_def RE_N_MT_def RE_N_PAREN_def RE_C_MT_def RE_C_PAREN_def
  RE_CYTOSINE_5_def RE_S_MT_def RE_S_HINT_def RE_CO_MT_def RE_MT_WORD_def


section \<open>Properties of the resolver\<close>

lemma choose_group_loop_result:
  "choose_group_loop ecs d (gs, u) =
     (gs @ List.map_filter (dict_get d) ecs, u + length (filter (\<lambda>ec. dict_get d ec = None) ecs))"
  by (induction ecs arbitrary: gs u) (auto split: option.splits)

lemma decide_row_loop_result:
  "decide_row_loop ecs d (gs, u) =
     (gs @ List.map_filter (dict_get d) ecs, u + length (filter (\<lambda>ec. dict_get d ec = None) ecs))"
  by (induction ecs arbitrary: gs u) (auto split: option.splits)

lemma set_map_filter_lookup:
  "set (List.map_filter (dict_get d) ecs) = mapped_groups ecs d"
proof -
  have "\<And>g. g \<in> set (List.map_filter (dict_get d) ecs) \<longleftrightarrow> (\<exists>ec \<in> set ecs. dict_get d ec = Some g)"
    by (induction ecs) (auto split: option.splits)
  then show ?thesis by (auto simp: mapped_groups_def)
qed

lemma unknown_count_zero:
  "length (filter (\<lambda>ec. dict_get d ec = None) ecs) \<noteq> 0 \<longleftrightarrow> some_unmapped ecs d"
  by (auto simp: some_unmapped_def filter_empty_conv)

lemma py_set_single:
  "length (py_set xs) = Suc 0 \<longleftrightarrow> card (set xs) = Suc 0"
  by (simp add: py_set_def length_remdups_card_conv)

lemma hd_py_set_single:
  assumes "card (set xs) = Suc 0"
  shows "hd (py_set xs) = the_elem (set xs)"
proof -
  from assms obtain x where x: "set xs = {x}"
    unfolding card_1_singleton_iff by blast
  have s: "set (py_set xs) = {x}" using x by (simp add: py_set_def)
  then have "py_set xs \<noteq> []" by force
  then have "hd (py_set xs) \<in> set (py_set xs)" by (rule hd_in_set)
  then have "hd (py_set xs) = x" unfolding s by simp
  then show ?thesis using x by simp
qed

lemma choose_group_for_ecs_outcome: "choose_group_for_ecs ecs d = outcome ecs d"
proof -
  let ?gs = "List.map_filter (dict_get d) ecs"
  have e: "?gs = [] \<longleftrightarrow> mapped_groups ecs d = {}"
    using set_map_filter_lookup [of d ecs] by (metis set_empty)
  show ?thesis
    unfolding choose_group_for_ecs_def outcome_def
    using e unknown_count_zero [of d ecs] set_map_filter_lookup [of d ecs]
    by (simp add: choose_group_loop_result Let_def py_set_single hd_py_set_single)
qed

lemma decide_row_group_outcome: "decide_row_group ecs d = outcome ecs d"
proof -
  let ?gs = "List.map_filter (dict_get d) ecs"
  have e: "?gs = [] \<longleftrightarrow> mapped_groups ecs d = {}"
    using set_map_filter_lookup [of d ecs] by (metis set_empty)
  show ?thesis
    unfolding decide_row_group_def outcome_def
    using e unknown_count_zero [of d ecs] set_map_filter_lookup [of d ecs]
    by (simp add: decide_row_loop_result Let_def py_set_single hd_py_set_single)
qed

lemma outcome_empty: "outcome [] d = ''NO_EC''"
  by (simp add: outcome_def)

lemma outcome_unknown:
  assumes "ecs \<noteq> []" and "\<forall>ec \<in> set ecs. dict_get d ec = None"
  shows "outcome ecs d = ''UNKNOWN''"
proof -
  have "mapped_groups ecs d = {}" using assms(2) by (simp add: mapped_groups_def)
  moreover have "some_unmapped ecs d"
    using assms by (cases ecs) (auto simp: some_unmapped_def)
  ultimately show ?thesis using assms(1) by (simp add: outcome_def)
qed

lemma outcome_mixed:
  assumes "\<exists>ec \<in> set ecs. dict_get d ec \<noteq> None" and "\<exists>ec \<in> set ecs. dict_get d ec = None"
  shows "outcome ecs d = ''MIXED''"
proof -
  have "mapped_groups ecs d \<noteq> {}" using assms(1) by (auto simp: mapped_groups_def)
  moreover have "some_unmapped ecs d" using assms(2) by (simp add: some_unmapped_def)
  moreover have "ecs \<noteq> []" using assms(1) by auto
  ultimately show ?thesis by (simp add: outcome_def)
qed

lemma outcome_single:
  assumes "ecs \<noteq> []" and "\<forall>ec \<in> set ecs. dict_get d ec = Some g"
  shows "outcome ecs d = g"
proof -
  obtain e where e: "e \<in> set ecs" using assms(1) by (cases ecs) auto
  have m: "mapped_groups ecs d = {g}"
    using assms(2) e by (auto simp: mapped_groups_def)
  have "\<not> some_unmapped ecs d" using assms(2) by (simp add: some_unmapped_def)
  then show ?thesis using assms(1) m by (simp add: outcome_def)
qed

lemma outcome_multiple:
  assumes "\<forall>ec \<in> set ecs. dict_get d ec \<noteq> None"
    and "a \<in> set ecs" and "b \<in> set ecs" and "dict_get d a \<noteq> dict_get d b"
  shows "outcome ecs d = ''MULTIPLE''"
proof -
  have "dict_get d a \<noteq> None" and "dict_get d b \<noteq> None"
    using assms(1-3) by blast+
  then obtain ga gb where g: "dict_get d a = Some ga" "dict_get d b = Some gb"
    by blast
  have ne: "ga \<noteq> gb" using g assms(4) by simp
  have sub: "{ga, gb} \<subseteq> mapped_groups ecs d"
    using g assms(2,3) by (auto simp: mapped_groups_def)
  have "card (mapped_groups ecs d) \<noteq> Suc 0"
  proof
    assume "card (mapped_groups ecs d) = Suc 0"
    then obtain x where "mapped_groups ecs d = {x}"
      unfolding card_1_singleton_iff by blast
    then show False using sub ne by auto
  qed
  moreover have "\<not> some_unmapped ecs d" using assms(1) by (simp add: some_unmapped_def)
  moreover have "ecs \<noteq> []" using assms(2) by auto
  ultimately show ?thesis by (simp add: outcome_def)
qed

lemma outcome_set_only:
  assumes "set ecs1 = set ecs2"
  shows "outcome ecs1 d = outcome ecs2 d"
proof -
  have "mapped_groups ecs1 d = mapped_groups ecs2 d"
    using assms by (simp add: mapped_groups_def)
  moreover have "some_unmapped ecs1 d = some_unmapped ecs2 d"
    using assms by (simp add: some_unmapped_def)
  moreover have "(ecs1 = []) = (ecs2 = [])"
    using assms by (metis set_empty)
  ultimately show ?thesis by (simp add: outcome_def)
qed

text \<open>
  Claim C10. The two implementations of the resolver, \<open>choose_group_for_ecs\<close> and
  \<open>decide_row_group\<close>, return the same label for every EC list and every dictionary.
\<close>

theorem resolvers_agree: "choose_group_for_ecs ecs d = decide_row_group ecs d"
  by (simp add: choose_group_for_ecs_outcome decide_row_group_outcome)

text \<open>
  Claim C1. The resolver returns the five-way partition outcome: an empty EC list gives
  \<open>NO_EC\<close>; a non-empty list none of whose ECs is a key gives \<open>UNKNOWN\<close>;
  a list with both mapped and unmapped ECs gives \<open>MIXED\<close>; a non-empty list whose
  ECs all map to one group \<open>g\<close> gives \<open>g\<close>; a list whose ECs are all mapped
  and reach two different groups gives \<open>MULTIPLE\<close>. This holds for both
  implementations.
\<close>

theorem resolver_five_way:
  "(ecs = [] \<longrightarrow>
      choose_group_for_ecs ecs d = ''NO_EC'' \<and> decide_row_group ecs d = ''NO_EC'') \<and>
   (ecs \<noteq> [] \<and> (\<forall>ec \<in> set ecs. dict_get d ec = None) \<longrightarrow>
      choose_group_for_ecs ecs d = ''UNKNOWN'' \<and> decide_row_group ecs d = ''UNKNOWN'') \<and>
   ((\<exists>ec \<in> set ecs. dict_get d ec \<noteq> None) \<and> (\<exists>ec \<in> set ecs. dict_get d ec = None) \<longrightarrow>
      choose_group_for_ecs ecs d = ''MIXED'' \<and> decide_row_group ecs d = ''MIXED'') \<and>
   (ecs \<noteq> [] \<and> (\<forall>ec \<in> set ecs. dict_get d ec = Some g) \<longrightarrow>
      choose_group_for_ecs ecs d = g \<and> decide_row_group ecs d = g) \<and>
   ((\<forall>ec \<in> set ecs. dict_get d ec \<noteq> None) \<and>
    (\<exists>a \<in> set ecs. \<exists>b \<in> set ecs. dict_get d a \<noteq> dict_get d b) \<longrightarrow>
      choose_group_for_ecs ecs d = ''MULTIPLE'' \<and> decide_row_group ecs d = ''MULTIPLE'')"
proof -
  have 1: "ecs = [] \<longrightarrow> outcome ecs d = ''NO_EC''"
    using outcome_empty by blast
  have 2: "ecs \<noteq> [] \<and> (\<forall>ec \<in> set ecs. dict_get d ec = None) \<longrightarrow> outcome ecs d = ''UNKNOWN''"
    using outcome_unknown by blast
  have 3: "(\<exists>ec \<in> set ecs. dict_get d ec \<noteq> None) \<and> (\<exists>ec \<in> set ecs. dict_get d ec = None)
        \<longrightarrow> outcome ecs d = ''MIXED''"
    using outcome_mixed by blast
  have 4: "ecs \<noteq> [] \<and> (\<forall>ec \<in> set ecs. dict_get d ec = Some g) \<longrightarrow> outcome ecs d = g"
    using outcome_single by blast
  have 5: "(\<forall>ec \<in> set ecs. dict_get d ec \<noteq> None) \<and>
           (\<exists>a \<in> set ecs. \<exists>b \<in> set ecs. dict_get d a \<noteq> dict_get d b)
        \<longrightarrow> outcome ecs d = ''MULTIPLE''"
    using outcome_multiple by blast
  show ?thesis
    unfolding choose_group_for_ecs_outcome decide_row_group_outcome
    using 1 2 3 4 5 by blast
qed

text \<open>
  Claim C7. The outcome depends only on the set of ECs in the list: two lists with the
  same set of distinct ECs resolve to the same label, whatever their order and
  multiplicities, in both implementations.
\<close>

theorem resolver_set_semantics:
  "set ecs1 = set ecs2 \<Longrightarrow>
     choose_group_for_ecs ecs1 d = choose_group_for_ecs ecs2 d \<and>
     decide_row_group ecs1 d = decide_row_group ecs2 d"
  unfolding choose_group_for_ecs_outcome decide_row_group_outcome
  using outcome_set_only by blast

theorem resolver_five_way_witness:
  "choose_group_for_ecs [] [(''2.1.1.1'', ''N_MT''), (''2.1.1.63'', ''C_MT'')] = ''NO_EC'' \<and>
   decide_row_group [''9.9.9.9''] [(''2.1.1.1'', ''N_MT''), (''2.1.1.63'', ''C_MT'')] = ''UNKNOWN'' \<and>
   choose_group_for_ecs [''2.1.1.1'', ''9.9.9.9''] [(''2.1.1.1'', ''N_MT''), (''2.1.1.63'', ''C_MT'')] = ''MIXED'' \<and>
   decide_row_group [''2.1.1.1'', ''2.1.1.1''] [(''2.1.1.1'', ''N_MT''), (''2.1.1.63'', ''C_MT'')] = ''N_MT'' \<and>
   choose_group_for_ecs [''2.1.1.1'', ''2.1.1.63''] [(''2.1.1.1'', ''N_MT''), (''2.1.1.63'', ''C_MT'')] = ''MULTIPLE''"
  using resolver_five_way [of "[]" "[(''2.1.1.1'', ''N_MT''), (''2.1.1.63'', ''C_MT'')]" "''x''"]
    resolver_five_way [of "[''9.9.9.9'']" "[(''2.1.1.1'', ''N_MT''), (''2.1.1.63'', ''C_MT'')]" "''x''"]
    resolver_five_way [of "[''2.1.1.1'', ''9.9.9.9'']" "[(''2.1.1.1'', ''N_MT''), (''2.1.1.63'', ''C_MT'')]" "''x''"]
    resolver_five_way [of "[''2.1.1.1'', ''2.1.1.1'']" "[(''2.1.1.1'', ''N_MT''), (''2.1.1.63'', ''C_MT'')]" "''N_MT''"]
    resolver_five_way [of "[''2.1.1.1'', ''2.1.1.63'']" "[(''2.1.1.1'', ''N_MT''), (''2.1.1.63'', ''C_MT'')]" "''x''"]
  by (auto simp: dict_get_def)

theorem resolver_set_semantics_witness:
  "set [''2.1.1.1'', ''2.1.1.1''] = set [''2.1.1.1''] \<and>
   choose_group_for_ecs [''2.1.1.1'', ''2.1.1.1''] [(''2.1.1.1'', ''O_MT'')] =
     choose_group_for_ecs [''2.1.1.1''] [(''2.1.1.1'', ''O_MT'')] \<and>
   decide_row_group [''2.1.1.1'', ''2.1.1.1''] [(''2.1.1.1'', ''O_MT'')] =
     decide_row_group [''2.1.1.1''] [(''2.1.1.1'', ''O_MT'')]"
proof -
  have h: "set [''2.1.1.1'', ''2.1.1.1''] = set [''2.1.1.1'']" by simp
  show ?thesis using h resolver_set_semantics [OF h, of "[(''2.1.1.1'', ''O_MT'')]"] by simp
qed


section \<open>Properties of the name classifier\<close>

text \<open>
  Claim C5. For every name, a record with status \<open>TRANSFERRED\<close> is classified
  \<open>TRANSFERRED\<close> and a record with status \<open>DELETED\<close> is classified \<open>DELETED\<close>;
  the text of the name plays no part.
\<close>

theorem classify_status_short_circuit:
  "classify name ''TRANSFERRED'' = ''TRANSFERRED'' \<and> classify name ''DELETED'' = ''DELETED''"
  by (simp add: classify_def)

text \<open>
  Claim C2, as stated, fails: \<open>Precorrin-4 C11-methyltransferase\<close> is not classified
  \<open>C_MT\<close>, and \<open>Acetate CoA-methyltransferase\<close> is not classified \<open>OTHER\<close>.
\<close>

theorem co_mt_guard_counterexample:
  "classify ''Precorrin-4 C11-methyltransferase'' ''OK'' \<noteq> ''C_MT'' \<and>
   classify ''Acetate CoA-methyltransferase'' ''OK'' \<noteq> ''OTHER''"
  by (simp add: classify_eval)

text \<open>
  Claim C2, amended. None of the three names matches the pattern of the
  Co-methyltransferase rule or a pattern of the O, N, C or S rules; each holds the
  word \<open>methyltransferase\<close>, and each is classified \<open>UNCLEAR\<close>. In particular
  \<open>Cobalt-precorrin-6Y C5-methyltransferase\<close> is not routed by its \<open>Co\<close>, the
  token \<open>C11-methyltransferase\<close> is not the token \<open>C-methyltransferase\<close>, and
  \<open>CoA-methyltransferase\<close> is not the token \<open>Co-methyltransferase\<close>.
\<close>

theorem co_mt_guard_examples:
  "classify ''Cobalt-precorrin-6Y C5-methyltransferase'' ''OK'' = ''UNCLEAR'' \<and>
   \<not> re_search True RE_CO_MT ''Cobalt-precorrin-6Y C5-methyltransferase'' \<and>
   classify ''Precorrin-4 C11-methyltransferase'' ''OK'' = ''UNCLEAR'' \<and>
   \<not> re_search True RE_C_MT ''Precorrin-4 C11-methyltransferase'' \<and>
   classify ''Acetate CoA-methyltransferase'' ''OK'' = ''UNCLEAR'' \<and>
   \<not> re_search True RE_CO_MT ''Acetate CoA-methyltransferase''"
proof -
  have 1: "classify ''Cobalt-precorrin-6Y C5-methyltransferase'' ''OK'' = ''UNCLEAR''"
    by (simp add: classify_eval)
  have 2: "\<not> re_search True RE_CO_MT ''Cobalt-precorrin-6Y C5-methyltransferase''"
    by (simp add: classify_eval)
  have 3: "classify ''Precorrin-4 C11-methyltransferase'' ''OK'' = ''UNCLEAR''"
    by (simp add: classify_eval)
  have 4: "\<not> re_search True RE_C_MT ''Precorrin-4 C11-methyltransferase''"
    by (simp add: classify_eval)
  have 5: "classify ''Acetate CoA-methyltransferase'' ''OK'' = ''UNCLEAR''"
    by (simp add: classify_eval)
  have 6: "\<not> re_search True RE_CO_MT ''Acetate CoA-methyltransferase''"
    by (simp add: classify_eval)
  show ?thesis using 1 2 3 4 5 6 by blast
qed

text \<open>
  Claim C9. \<open>S-adenosylmethionine-dependent methyltransferase\<close> with status \<open>OK\<close>
  is classified \<open>UNCLEAR\<close>, not \<open>S_MT\<close>. A name whose lower-case form contains
  \<open>s-adenosyl\<close> is never classified \<open>S_MT\<close> by the sulfur-hint test: it is
  \<open>S_MT\<close> only when it holds the token \<open>S-methyltransferase\<close>.
\<close>

theorem s_adenosyl_guard:
  "classify ''S-adenosylmethionine-dependent methyltransferase'' ''OK'' = ''UNCLEAR'' \<and>
   contains (lower ''S-adenosylmethionine-dependent methyltransferase'') ''s-adenosyl'' \<and>
   (\<forall>name status.
      contains (lower name) ''s-adenosyl'' \<and> \<not> re_search True RE_S_MT name
      \<longrightarrow> classify name status \<noteq> ''S_MT'')"
proof -
  have 1: "classify ''S-adenosylmethionine-dependent methyltransferase'' ''OK'' = ''UNCLEAR''"
    by (simp add: classify_eval)
  have 2: "contains (lower ''S-adenosylmethionine-dependent methyltransferase'') ''s-adenosyl''"
    by (simp add: lower_def ascii_tables)
  have 3: "classify name status \<noteq> ''S_MT''"
    if "contains (lower name) ''s-adenosyl''" and "\<not> re_search True RE_S_MT name"
    for name status
    using that by (simp add: classify_def Let_def)
  show ?thesis using 1 2 3 by blast
qed

theorem s_adenosyl_guard_witness:
  "contains (lower ''S-adenosylmethionine:thiol methyltransferase'') ''s-adenosyl'' \<and>
   \<not> re_search True RE_S_MT ''S-adenosylmethionine:thiol methyltransferase'' \<and>
   re_search True RE_S_HINT ''S-adenosylmethionine:thiol methyltransferase'' \<and>
   classify ''S-adenosylmethionine:thiol methyltransferase'' ''OK'' \<noteq> ''S_MT''"
proof -
  have h1: "contains (lower ''S-adenosylmethionine:thiol methyltransferase'') ''s-adenosyl''"
    by (simp add: lower_def ascii_tables)
  have h2: "\<not> re_search True RE_S_MT ''S-adenosylmethionine:thiol methyltransferase''"
    by (simp add: search_eval RE_S_MT_def)
  have h3: "re_search True RE_S_HINT ''S-adenosylmethionine:thiol methyltransferase''"
    by (simp add: search_eval RE_S_HINT_def)
  show ?thesis using h1 h2 h3 s_adenosyl_guard by blast
qed


section \<open>Properties of EC extraction\<close>

subsection \<open>Positions\<close>

lemma pos_after_0: "pos_after prev s 0 = (prev, s)"
  by (simp add: pos_after_def)

lemma pos_after_Suc: "pos_after prev (x # xs) (Suc k) = pos_after (Some x) xs k"
  by (cases k) (simp_all add: pos_after_def)

lemma pos_after_append:
  "pos_after prev (u @ v) (length u + j) = pos_after (if u = [] then prev else Some (last u)) v j"
proof (induction u arbitrary: prev)
  case Nil
  then show ?case by simp
next
  case (Cons x u)
  have "pos_after prev ((x # u) @ v) (length (x # u) + j) = pos_after (Some x) (u @ v) (length u + j)"
    using pos_after_Suc [of prev x "u @ v" "length u + j"] by simp
  then show ?case using Cons.IH [of "Some x"] by simp
qed

subsection \<open>Scanning over positions without a match\<close>

lemma findall_from_no_match:
  "ends ic r (prev, x # xs) = [] \<Longrightarrow> findall_from ic r (prev, x # xs) = findall_from ic r (Some x, xs)"
  by (subst findall_from.simps) simp

lemma findall_from_end:
  "ends ic r (prev, []) = [] \<Longrightarrow> findall_from ic r (prev, []) = []"
  by (subst findall_from.simps) simp

lemma findall_skip:
  "\<forall>k < length u. ends ic r (pos_after prev (u @ v) k) = [] \<Longrightarrow>
   findall_from ic r (prev, u @ v) = findall_from ic r ((if u = [] then prev else Some (last u)), v)"
proof (induction u arbitrary: prev)
  case Nil
  then show ?case by simp
next
  case (Cons x u)
  have 0: "ends ic r (prev, x # u @ v) = []"
    using Cons.prems pos_after_0 [of prev "(x # u) @ v"] by force
  have "\<forall>k < length u. ends ic r (pos_after (Some x) (u @ v) k) = []"
  proof (intro allI impI)
    fix k assume "k < length u"
    then have "ends ic r (pos_after prev ((x # u) @ v) (Suc k)) = []"
      using Cons.prems by simp
    then show "ends ic r (pos_after (Some x) (u @ v) k) = []"
      using pos_after_Suc [of prev x "u @ v" k] by simp
  qed
  then have "findall_from ic r (Some x, u @ v)
               = findall_from ic r ((if u = [] then Some x else Some (last u)), v)"
    by (rule Cons.IH)
  then show ?case using findall_from_no_match [OF 0] by simp
qed

lemma findall_none:
  assumes "\<forall>k \<le> length s. ends ic r (pos_after prev s k) = []"
  shows "findall_from ic r (prev, s) = []"
proof -
  have "\<forall>k < length s. ends ic r (pos_after prev (s @ []) k) = []"
    using assms by simp
  then have 1: "findall_from ic r (prev, s @ [])
                  = findall_from ic r ((if s = [] then prev else Some (last s)), [])"
    by (rule findall_skip)
  have "ends ic r (pos_after prev (s @ []) (length s + 0)) = []"
    using assms by simp
  then have "ends ic r ((if s = [] then prev else Some (last s)), []) = []"
    unfolding pos_after_append by (simp add: pos_after_0)
  then show ?thesis using 1 findall_from_end by simp
qed

subsection \<open>The first end of a match\<close>

lemma first_end_Seq:
  "first_end ic r1 p q \<Longrightarrow> first_end ic r2 q q' \<Longrightarrow> first_end ic (Seq r1 r2) p q'"
  by (auto simp: first_end_def split: list.splits)

lemma first_end_Alt:
  "first_end ic r1 p q \<Longrightarrow> first_end ic (Alt r1 r2) p q"
  by (auto simp: first_end_def split: list.splits)

lemma first_end_WordB:
  "boundary p \<Longrightarrow> first_end ic WordB p p"
  by (simp add: first_end_def)

lemma first_end_dot:
  "first_end False (Lits ''.'') (prev, CHR ''.'' # rest) (Some CHR ''.'', rest)"
  by (simp add: first_end_def chr_eq_def)

lemma run_from_none:
  "rest = [] \<or> \<not> isdecimal (hd rest) \<Longrightarrow> run_from Digit (prev, rest) = []"
  by (cases rest) auto

lemma first_end_digits:
  assumes "numeric a" and "rest = [] \<or> \<not> isdecimal (hd rest)"
  shows "first_end ic (Plus Digit) (prev, a @ rest) (Some (last a), rest)"
proof -
  have "a \<noteq> [] \<Longrightarrow> list_all isdecimal a \<Longrightarrow>
        \<exists>qs. run_from Digit (prev, a @ rest) = (Some (last a), rest) # qs" for prev
  proof (induction a arbitrary: prev)
    case Nil
    then show ?case by simp
  next
    case (Cons x a)
    show ?case
    proof (cases "a = []")
      case True
      then show ?thesis using Cons.prems run_from_none [OF assms(2)] by simp
    next
      case False
      then obtain qs where "run_from Digit (Some x, a @ rest) = (Some (last a), rest) # qs"
        using Cons.IH [of "Some x"] Cons.prems by auto
      then show ?thesis using Cons.prems False by simp
    qed
  qed
  then have "\<exists>qs. run_from Digit (prev, a @ rest) = (Some (last a), rest) # qs"
    using assms(1) unfolding numeric_def by blast
  then obtain qs where "run_from Digit (prev, a @ rest) = (Some (last a), rest) # qs"
    by blast
  then show ?thesis by (simp add: first_end_def)
qed

lemma isdecimal_isword: "isdecimal c \<Longrightarrow> isword c"
  by (simp add: isdecimal_def isword_def isalnum_def)

lemma numeric_hd: "numeric a \<Longrightarrow> isdecimal (hd a)"
  by (cases a) (simp_all add: numeric_def)

lemma numeric_last: "numeric a \<Longrightarrow> isdecimal (last a)"
  by (induction a) (auto simp: numeric_def)

lemma not_decimal_dot: "\<not> isdecimal (CHR ''.'')"
  by (simp add: isdecimal_ascii)


subsection \<open>The match of a numeric EC number\<close>

lemma ec_first_end:
  assumes "numeric a" and "numeric b" and "numeric c" and "numeric d"
    and "\<not> word_before (prev, a @ ''.'' @ b @ ''.'' @ c @ ''.'' @ d @ post)"
    and "post = [] \<or> \<not> isword (hd post)"
  shows "first_end False EC_REGEX (prev, a @ ''.'' @ b @ ''.'' @ c @ ''.'' @ d @ post)
           (Some (last d), post)"
proof -
  let ?p0 = "(prev, a @ ''.'' @ b @ ''.'' @ c @ ''.'' @ d @ post)"
  have dot: "\<And>rest. CHR ''.'' # rest = [] \<or> \<not> isdecimal (hd (CHR ''.'' # rest))"
    using not_decimal_dot by simp
  have pd: "post = [] \<or> \<not> isdecimal (hd post)"
    using assms(6) isdecimal_isword by blast
  have "a \<noteq> []" using assms(1) by (simp add: numeric_def)
  then have "word_after ?p0 = isword (hd a)" by (cases a) simp_all
  then have "word_after ?p0" using numeric_hd [OF assms(1)] isdecimal_isword by simp
  then have b0: "boundary ?p0" using assms(5) by (simp add: boundary_def)
  have "word_before (Some (last d), post)"
    using numeric_last [OF assms(4)] isdecimal_isword by simp
  moreover have "\<not> word_after (Some (last d), post)"
    using assms(6) by (cases post) simp_all
  ultimately have b1: "boundary (Some (last d), post)" by (simp add: boundary_def)
  have s1: "first_end False (Plus Digit) ?p0 (Some (last a), ''.'' @ b @ ''.'' @ c @ ''.'' @ d @ post)"
    using first_end_digits [OF assms(1), of "''.'' @ b @ ''.'' @ c @ ''.'' @ d @ post" False prev] dot
    by simp
  have s2: "first_end False (Lits ''.'') (Some (last a), ''.'' @ b @ ''.'' @ c @ ''.'' @ d @ post)
              (Some CHR ''.'', b @ ''.'' @ c @ ''.'' @ d @ post)"
    using first_end_dot by simp
  have s3: "first_end False (Plus Digit) (Some CHR ''.'', b @ ''.'' @ c @ ''.'' @ d @ post)
              (Some (last b), ''.'' @ c @ ''.'' @ d @ post)"
    using first_end_digits [OF assms(2), of "''.'' @ c @ ''.'' @ d @ post" False "Some CHR ''.''"] dot
    by simp
  have s4: "first_end False (Lits ''.'') (Some (last b), ''.'' @ c @ ''.'' @ d @ post)
              (Some CHR ''.'', c @ ''.'' @ d @ post)"
    using first_end_dot by simp
  have s5: "first_end False (Plus Digit) (Some CHR ''.'', c @ ''.'' @ d @ post)
              (Some (last c), ''.'' @ d @ post)"
    using first_end_digits [OF assms(3), of "''.'' @ d @ post" False "Some CHR ''.''"] dot
    by simp
  have s6: "first_end False (Lits ''.'') (Some (last c), ''.'' @ d @ post)
              (Some CHR ''.'', d @ post)"
    using first_end_dot by simp
  have s7: "first_end False (Alt (Plus Digit) (Lits ''-'')) (Some CHR ''.'', d @ post)
              (Some (last d), post)"
    using first_end_digits [OF assms(4) pd] by (rule first_end_Alt)
  have s8: "first_end False WordB (Some (last d), post) (Some (last d), post)"
    using b1 by (rule first_end_WordB)
  have s0: "first_end False WordB ?p0 ?p0"
    using b0 by (rule first_end_WordB)
  show ?thesis
    unfolding EC_REGEX_def cat.simps
    by (intro first_end_Seq [OF s0] first_end_Seq [OF s1] first_end_Seq [OF s2]
        first_end_Seq [OF s3] first_end_Seq [OF s4] first_end_Seq [OF s5]
        first_end_Seq [OF s6] first_end_Seq [OF s7] s8)
qed


lemma sort_py_set_single: "sort (py_set [x :: string]) = [x]"
  by (simp add: py_set_def)

text \<open>
  Claim C3, amended. Let an EC number have four numeric components (each one or more
  decimal digits), and let it stand in a text between \<open>pre\<close> and \<open>post\<close> such
  that the character before it, if any, and the character after it, if any, are not
  word characters, and such that no match of the EC pattern starts at a position of
  the text before the EC number or after it. Then extraction returns the list of
  that single EC number.
\<close>

theorem extract_single_numeric_ec:
  assumes "numeric a" and "numeric b" and "numeric c" and "numeric d"
    and "ec = a @ ''.'' @ b @ ''.'' @ c @ ''.'' @ d"
    and "pre = [] \<or> \<not> isword (last pre)"
    and "post = [] \<or> \<not> isword (hd post)"
    and "\<forall>k \<le> length (pre @ ec @ post).
           k < length pre \<or> length pre + length ec \<le> k
           \<longrightarrow> ends False EC_REGEX (pos_at (pre @ ec @ post) k) = []"
  shows "extract_ec_list (Some (pre @ ec @ post)) = [ec]"
proof -
  let ?p0 = "if pre = [] then None else Some (last pre)"
  have d: "d \<noteq> []" using assms(4) by (simp add: numeric_def)
  have ec': "ec @ post = a @ ''.'' @ b @ ''.'' @ c @ ''.'' @ d @ post"
    using assms(5) by simp
  have ne: "ec \<noteq> []" and last_ec: "last ec = last d"
    using assms(5) d by simp_all
  have "\<forall>k < length pre. ends False EC_REGEX (pos_after None (pre @ ec @ post) k) = []"
    using assms(8) by (simp add: pos_at_def)
  then have 1: "findall_from False EC_REGEX (None, pre @ ec @ post)
                  = findall_from False EC_REGEX (?p0, ec @ post)"
    by (rule findall_skip)
  have "\<not> word_before (?p0, ec @ post)"
    using assms(6) by (cases "pre = []") simp_all
  then have "first_end False EC_REGEX (?p0, ec @ post) (Some (last d), post)"
    unfolding ec' using assms(1-4) assms(7) by (intro ec_first_end)
  then obtain qs where m: "ends False EC_REGEX (?p0, ec @ post) = (Some (last d), post) # qs"
    by (auto simp: first_end_def split: list.splits)
  have 2: "findall_from False EC_REGEX (?p0, ec @ post)
             = ec # findall_from False EC_REGEX (Some (last d), post)"
    using m ne by (subst findall_from.simps) simp
  have "\<forall>j \<le> length post. ends False EC_REGEX (pos_after (Some (last d)) post j) = []"
  proof (intro allI impI)
    fix j assume j: "j \<le> length post"
    have "ends False EC_REGEX (pos_at (pre @ ec @ post) (length pre + length ec + j)) = []"
      using assms(8) j by simp
    moreover have "pos_at (pre @ ec @ post) (length pre + length ec + j)
                     = pos_after (Some (last d)) post j"
      using pos_after_append [of None "pre @ ec" post j] ne last_ec
      by (simp add: pos_at_def)
    ultimately show "ends False EC_REGEX (pos_after (Some (last d)) post j) = []"
      by simp
  qed
  then have 3: "findall_from False EC_REGEX (Some (last d), post) = []"
    by (rule findall_none)
  have "findall False EC_REGEX (pre @ ec @ post) = [ec]"
    unfolding findall_def 1 2 3 by simp
  then show ?thesis
    by (simp add: extract_ec_list_def sort_py_set_single)
qed

lemmas extract_eval =
  extract_ec_list_def findall_def findall_from.simps EC_REGEX_def boundary_def chr_eq_def
  py_set_def ascii_tables

text \<open>
  Claim C3, as stated, fails. Neither \<open>x\<close> nor \<open>3.\<close> holds a match of the
  EC pattern, yet \<open>2.1.1.1\<close> after \<open>x\<close> is not extracted (no word boundary
  before it), and \<open>2.1.1.1\<close> after \<open>3.\<close> yields \<open>3.2.1.1\<close> instead.
\<close>

theorem extract_single_ec_counterexample:
  "findall False EC_REGEX ''x'' = [] \<and> findall False EC_REGEX [] = [] \<and>
   extract_ec_list (Some (''x'' @ ''2.1.1.1'' @ [])) = [] \<and>
   findall False EC_REGEX ''3.'' = [] \<and>
   extract_ec_list (Some (''3.'' @ ''2.1.1.1'' @ [])) = [''3.2.1.1'']"
  by (simp add: extract_eval)

text \<open>
  A wildcard EC number at the end of the text or before a character that is not a word
  character is not matched: the pattern asks for a word boundary after the hyphen.
\<close>

lemma extract_wildcard_at_end:
  "extract_ec_list (Some ''2.1.1.-'') = [] \<and> extract_ec_list (Some ''EC 2.1.1.- (partial)'') = []"
  by (simp add: extract_eval)

theorem extract_single_numeric_ec_witness:
  "extract_ec_list (Some (''EC:'' @ ''2.1.1.63'' @ '';'')) = [''2.1.1.63'']"
proof -
  have n: "numeric ''2''" "numeric ''1''" "numeric ''63''"
    by (simp_all add: numeric_def ascii_tables)
  have e: "''2.1.1.63'' = ''2'' @ ''.'' @ ''1'' @ ''.'' @ ''1'' @ ''.'' @ ''63''"
    by simp
  have l: "''EC:'' = [] \<or> \<not> isword (last ''EC:'')"
    by (simp add: ascii_tables)
  have r: "'';'' = [] \<or> \<not> isword (hd '';'')"
    by (simp add: ascii_tables)
  have h: "\<forall>k \<le> length (''EC:'' @ ''2.1.1.63'' @ '';'').
             k < length ''EC:'' \<or> length ''EC:'' + length ''2.1.1.63'' \<le> k
             \<longrightarrow> ends False EC_REGEX (pos_at (''EC:'' @ ''2.1.1.63'' @ '';'') k) = []"
  proof (intro allI impI)
    fix k :: nat
    assume "k \<le> length (''EC:'' @ ''2.1.1.63'' @ '';'')"
      and "k < length ''EC:'' \<or> length ''EC:'' + length ''2.1.1.63'' \<le> k"
    then have "k = 0 \<or> k = 1 \<or> k = 2 \<or> k = 11 \<or> k = 12"
      by simp arith
    then show "ends False EC_REGEX (pos_at (''EC:'' @ ''2.1.1.63'' @ '';'') k) = []"
      by (elim disjE)
        (simp_all add: pos_at_def pos_after_def EC_REGEX_def boundary_def ascii_tables)
  qed
  show ?thesis
    using extract_single_numeric_ec [OF n(1) n(2) n(2) n(3) e l r h] .
qed


section \<open>Properties of the reference parsers\<close>









lemmas parse_eval =
  parse_mt_grouped_def parse_mt_grouped_line_def parse_grouped_sectioned_def
  parse_grouped_sectioned_line_def splitlines_def strip_def startswith_def lower_def
  re_match_group1_def re_fullmatch_def HEADER_PRE_def HEADER_GROUP_def SECTION_GROUP_def
  EC_REGEX_def TAB_def split_def first_field_def dict_setdefault_def dict_get_def
  boundary_def chr_eq_def ord_def Let_def ascii_tables



section \<open>Properties of the runs\<close>

lemmas table_eval =
  load_ec_to_group_def parse_grouped_table_def df_columns_def str_cell_def

subsection \<open>Assigning a series into the frame\<close>

lemma setitem_align_same: "setitem_align idx (idx, vals) = map Some vals"
  by (simp add: setitem_align_def)

lemma map_lists_Some: "map_lists f (map Some xss) = Inr (map f xss)"
  by (induction xss) simp_all

lemma explode_keys_Some:
  "explode_keys (map Some xss) = concat (map (\<lambda>xs. if xs = [] then [''NO_EC''] else xs) xss)"
  by (simp add: explode_keys_def comp_def)

lemma extract_empty: "extract_ec_list (Some []) = []"
  by (simp add: extract_eval)

lemma concat_replicate_single: "concat (replicate n [x]) = replicate n x"
  by (induction n) simp_all

lemma explode_keys_no_ec:
  "\<forall>cell \<in> set cells. cell = None \<or> cell = Some [] \<Longrightarrow>
   explode_keys cells = replicate (length cells) ''NO_EC''"
  by (induction cells) (auto simp: explode_keys_def)

lemma setitem_align_empty_lists:
  fixes vals :: "string list list"
  assumes "vals = replicate (length idx) []"
  shows "length (setitem_align idx (sidx, vals)) = length idx"
    and "\<forall>cell \<in> set (setitem_align idx (sidx, vals)). cell = None \<or> cell = Some []"
proof -
  show "length (setitem_align idx (sidx, vals)) = length idx"
    using assms by (simp add: setitem_align_def)
  have "v = []" if "map_of (zip sidx vals) l = Some v" for l v
  proof -
    from that have "(l, v) \<in> set (zip sidx vals)" by (rule map_of_SomeD)
    then have "v \<in> set vals" by (rule set_zip_rightD)
    then show ?thesis using assms by simp
  qed
  then have "map_of (zip sidx vals) l = None \<or> map_of (zip sidx vals) l = Some []" for l
    by (cases "map_of (zip sidx vals) l") auto
  then show "\<forall>cell \<in> set (setitem_align idx (sidx, vals)). cell = None \<or> cell = Some []"
    using assms by (auto simp: setitem_align_def)
qed

lemma split_by_ec_on_lists:
  assumes "setitem_align idx
             (series_map (\<lambda>s. extract_ec_list (Some s)) (ec_source idx df ec_col cat_col))
           = map Some xss"
  shows "split_by_ec_main idx df ec_col cat_col m = Inr (ec_keys m xss)"
  by (cases m) (simp_all add: split_by_ec_main_def assms map_lists_Some explode_keys_Some)

lemma ec_keys_empty_lists: "ec_keys m (replicate n []) = replicate n ''NO_EC''"
  by (cases m) (simp_all add: concat_replicate_single)

lemma split_by_ec_from_cat_col:
  assumes "map_of df ec_col = None" and "map_of df cat_col = Some cells"
  shows "split_by_ec_main idx df ec_col cat_col m
           = Inr (ec_keys m (map (\<lambda>s. extract_ec_list (Some s)) (fillna_str cells)))"
proof -
  have "setitem_align idx
          (series_map (\<lambda>s. extract_ec_list (Some s)) (ec_source idx df ec_col cat_col))
        = map Some (map (\<lambda>s. extract_ec_list (Some s)) (fillna_str cells))"
    using assms by (simp add: ec_source_def series_map_def setitem_align_same)
  then show ?thesis by (rule split_by_ec_on_lists)
qed

lemma split_by_ec_no_column:
  assumes "map_of df ec_col = None" and "map_of df cat_col = None"
    and "idx = range_index (length idx) \<or> m = Explode"
  shows "split_by_ec_main idx df ec_col cat_col m = Inr (replicate (length idx) ''NO_EC'')"
proof -
  let ?ser = "series_map (\<lambda>s. extract_ec_list (Some s)) (ec_source idx df ec_col cat_col)"
  have ser: "?ser = (range_index (length idx), replicate (length idx) [])"
    using assms(1,2) by (simp add: ec_source_def series_map_def extract_empty)
  from assms(3) show ?thesis
  proof
    assume r: "idx = range_index (length idx)"
    have "setitem_align idx (idx, replicate (length idx) [] :: string list list)
            = map Some (replicate (length idx) [])"
      by (rule setitem_align_same)
    then have "setitem_align idx ?ser = map Some (replicate (length idx) [])"
      unfolding ser using r by simp
    then have "split_by_ec_main idx df ec_col cat_col m
                 = Inr (ec_keys m (replicate (length idx) []))"
      by (rule split_by_ec_on_lists)
    then show ?thesis by (simp add: ec_keys_empty_lists)
  next
    assume m: "m = Explode"
    have "explode_keys (setitem_align idx ?ser)
            = replicate (length (setitem_align idx ?ser)) ''NO_EC''"
      unfolding ser
      by (rule explode_keys_no_ec) (rule setitem_align_empty_lists(2) [OF refl])
    moreover have "length (setitem_align idx ?ser) = length idx"
      unfolding ser by (rule setitem_align_empty_lists(1) [OF refl])
    ultimately show ?thesis using m by (simp add: split_by_ec_main_def)
  qed
qed

text \<open>
  Where the table has neither column and a row label that the new series lacks, the
  modes \<open>First\<close> and \<open>Joined\<close> end in the \<open>TypeError\<close>.
\<close>

lemma split_by_ec_misaligned:
  "split_by_ec_main [OtherLabel ''P12345''] [(''Entry'', [Some ''kinase'']), (''Length'', [Some ''321''])]
     ''EC number'' ''Catalytic activity'' First = Inl TypeError"
  by (simp add: split_by_ec_main_def ec_source_def series_map_def setitem_align_def
      range_index_def)

text \<open>
  Claim C4, as stated, fails. In \<open>MT_split_by_ec.py\<close>, on a table with the single
  column \<open>Entry\<close>, asked for the EC column \<open>EC number\<close>, the run raises nothing
  and puts the row under \<open>NO_EC\<close>. In \<open>split_mt2_by_group.py\<close>, when the
  reference holds a header line and no data, the run ends with the empty-mapping error,
  which lists no columns, although the data set lacks the EC column.
\<close>

theorem missing_ec_column_counterexample:
  "''EC number'' \<notin> set (df_columns [(''Entry'', [Some ''P12345''])]) \<and>
   split_by_ec_main [IntLabel 0] [(''Entry'', [Some ''P12345''])]
       ''EC number'' ''Catalytic activity'' Explode
     = Inr [''NO_EC''] \<and>
   split_mt2_main (''ec'' @ [CHR 0x09] @ ''group'' @ [CHR 0x0A]) [(''ec'', []), (''group'', [])]
       ''EC number'' [(''Entry'', [Some ''P12345''])]
     = Inl EmptyMapping"
proof -
  have 1: "''EC number'' \<notin> set (df_columns [(''Entry'', [Some ''P12345''])])"
    by (simp add: df_columns_def)
  have 2: "split_by_ec_main [IntLabel 0] [(''Entry'', [Some ''P12345''])]
       ''EC number'' ''Catalytic activity'' Explode = Inr [''NO_EC'']"
    by (simp add: split_by_ec_main_def ec_source_def series_map_def setitem_align_def
        range_index_def explode_keys_def extract_empty)
  have "load_ec_to_group (''ec'' @ [CHR 0x09] @ ''group'' @ [CHR 0x0A])
          [(''ec'', []), (''group'', [])] = Inr []"
    by (simp add: table_eval parse_eval)
  then have 3: "split_mt2_main (''ec'' @ [CHR 0x09] @ ''group'' @ [CHR 0x0A])
       [(''ec'', []), (''group'', [])] ''EC number'' [(''Entry'', [Some ''P12345''])]
     = Inl EmptyMapping"
    by (simp add: split_mt2_main_def)
  show ?thesis using 1 2 3 by blast
qed

text \<open>
  Claim C4, amended. In \<open>split_mt2_by_group.py\<close> and in
  \<open>assign_groups_to_ec_summary.py\<close>, once a non-empty mapping has been loaded, a table
  without the designated EC column ends the run with the error that names the column
  asked for and lists the columns of the table. In \<open>MT_split_by_ec.py\<close> a table
  without the designated EC column does not end the run with that error: when the
  table has the catalytic-activity column, the EC keys of the rows are those of the ECs
  extracted from it; when the table has neither column, every row is grouped under
  \<open>NO_EC\<close>, provided the rows carry the default labels 0, 1, 2, ... or the mode is
  \<open>explode\<close>.
\<close>

theorem missing_ec_column:
  assumes "ec_col \<notin> set (df_columns df)"
  shows "(load_ec_to_group key_text key_table = Inr d \<and> d \<noteq> [] \<longrightarrow>
            split_mt2_main key_text key_table ec_col df
              = Inl (ColumnNotFound ec_col (df_columns df))) \<and>
         (parse_mt_grouped mt_text \<noteq> [] \<longrightarrow>
            assign_groups_main mt_text ec_col df
              = Inl (ColumnNotFound ec_col (df_columns df))) \<and>
         (map_of df cat_col = Some cells \<longrightarrow>
            split_by_ec_main idx df ec_col cat_col m
              = Inr (ec_keys m (map (\<lambda>s. extract_ec_list (Some s)) (fillna_str cells)))) \<and>
         (cat_col \<notin> set (df_columns df) \<and> (idx = range_index (length idx) \<or> m = Explode) \<longrightarrow>
            split_by_ec_main idx df ec_col cat_col m
              = Inr (replicate (length idx) ''NO_EC''))"
proof -
  have n: "map_of df ec_col = None"
    using assms by (simp add: df_columns_def map_of_eq_None_iff)
  have 1: "load_ec_to_group key_text key_table = Inr d \<and> d \<noteq> [] \<longrightarrow>
            split_mt2_main key_text key_table ec_col df
              = Inl (ColumnNotFound ec_col (df_columns df))"
    using n by (simp add: split_mt2_main_def)
  have 2: "parse_mt_grouped mt_text \<noteq> [] \<longrightarrow>
            assign_groups_main mt_text ec_col df
              = Inl (ColumnNotFound ec_col (df_columns df))"
    using n by (simp add: assign_groups_main_def Let_def)
  have 3: "map_of df cat_col = Some cells \<longrightarrow>
            split_by_ec_main idx df ec_col cat_col m
              = Inr (ec_keys m (map (\<lambda>s. extract_ec_list (Some s)) (fillna_str cells)))"
    using split_by_ec_from_cat_col [OF n] by blast
  have 4: "cat_col \<notin> set (df_columns df) \<and> (idx = range_index (length idx) \<or> m = Explode) \<longrightarrow>
            split_by_ec_main idx df ec_col cat_col m
              = Inr (replicate (length idx) ''NO_EC'')"
  proof
    assume a: "cat_col \<notin> set (df_columns df) \<and> (idx = range_index (length idx) \<or> m = Explode)"
    then have "map_of df cat_col = None"
      by (simp add: df_columns_def map_of_eq_None_iff)
    then show "split_by_ec_main idx df ec_col cat_col m = Inr (replicate (length idx) ''NO_EC'')"
      using split_by_ec_no_column [OF n] a by blast
  qed
  show ?thesis using 1 2 3 4 by blast
qed

text \<open>
  Claim C8. When the reference yields no mapping, the run ends with the
  empty-mapping error and no row is resolved: in \<open>assign_groups_to_ec_summary.py\<close>
  when \<open>parse_mt_grouped\<close> returns the empty dictionary, in
  \<open>split_mt2_by_group.py\<close> when \<open>load_ec_to_group\<close> returns it.
\<close>

theorem empty_mapping_is_fatal:
  "(parse_mt_grouped mt_text = [] \<longrightarrow>
      assign_groups_main mt_text ec_col df = Inl EmptyMapping) \<and>
   (load_ec_to_group key_text key_table = Inr [] \<longrightarrow>
      split_mt2_main key_text key_table ec_col df = Inl EmptyMapping)"
  by (simp add: assign_groups_main_def split_mt2_main_def)


theorem missing_ec_column_witness:
  "''EC number'' \<notin> set (df_columns [(''Entry'', [Some ''P12345''])]) \<and>
   split_mt2_main
       (''ec'' @ [CHR 0x09] @ ''group'' @ [CHR 0x0A] @ ''2.1.1.1'' @ [CHR 0x09] @ ''O_MT'' @ [CHR 0x0A])
       [(''ec'', [Some ''2.1.1.1'']), (''group'', [Some ''O_MT''])]
       ''EC number'' [(''Entry'', [Some ''P12345''])]
     = Inl (ColumnNotFound ''EC number'' [''Entry'']) \<and>
   assign_groups_main (''# O_MT (1)'' @ [CHR 0x0A] @ ''2.1.1.1'' @ [CHR 0x09] @ ''foo'')
       ''EC number'' [(''Entry'', [Some ''P12345''])]
     = Inl (ColumnNotFound ''EC number'' [''Entry'']) \<and>
   split_by_ec_main [IntLabel 0, IntLabel 1]
       [(''Catalytic activity'', [Some ''EC 2.1.1.63; 2.1.1.1'', None])]
       ''EC number'' ''Catalytic activity'' Joined
     = Inr [''2.1.1.1|2.1.1.63'', ''NO_EC''] \<and>
   split_by_ec_main [IntLabel 0] [(''Entry'', [Some ''P12345''])]
       ''EC number'' ''Catalytic activity'' First
     = Inr [''NO_EC''] \<and>
   split_by_ec_main [OtherLabel ''P12345'', OtherLabel ''Q67890'']
       [(''Name'', [Some ''kinase'', Some ''ligase''])]
       ''EC number'' ''Catalytic activity'' Explode
     = Inr [''NO_EC'', ''NO_EC'']"
proof -
  let ?df = "[(''Entry'', [Some ''P12345''])] :: dataframe"
  let ?df2 = "[(''Catalytic activity'', [Some ''EC 2.1.1.63; 2.1.1.1'', None])] :: dataframe"
  let ?df3 = "[(''Name'', [Some ''kinase'', Some ''ligase''])] :: dataframe"
  let ?kx = "''ec'' @ [CHR 0x09] @ ''group'' @ [CHR 0x0A] @ ''2.1.1.1'' @ [CHR 0x09] @ ''O_MT'' @ [CHR 0x0A]"
  let ?kt = "[(''ec'', [Some ''2.1.1.1'']), (''group'', [Some ''O_MT''])] :: dataframe"
  let ?mt = "''# O_MT (1)'' @ [CHR 0x0A] @ ''2.1.1.1'' @ [CHR 0x09] @ ''foo''"
  have h: "''EC number'' \<notin> set (df_columns ?df)"
    by (simp add: df_columns_def)
  have h2: "''EC number'' \<notin> set (df_columns ?df2)"
    by (simp add: df_columns_def)
  have h3: "''EC number'' \<notin> set (df_columns ?df3)"
    by (simp add: df_columns_def)
  have k: "load_ec_to_group ?kx ?kt = Inr [(''2.1.1.1'', ''O_MT'')]"
    by (simp add: table_eval parse_eval)
  have m: "parse_mt_grouped ?mt \<noteq> []"
    by (simp add: parse_eval)
  have c: "''Catalytic activity'' \<notin> set (df_columns ?df)"
    by (simp add: df_columns_def)
  have c3: "''Catalytic activity'' \<notin> set (df_columns ?df3)"
    by (simp add: df_columns_def)
  have c2: "map_of ?df2 ''Catalytic activity'' = Some [Some ''EC 2.1.1.63; 2.1.1.1'', None]"
    by simp
  have r: "range_index (Suc 0) = [IntLabel 0]"
    by (simp add: range_index_def)
  have e: "ec_keys Joined (map (\<lambda>s. extract_ec_list (Some s))
             (fillna_str [Some ''EC 2.1.1.63; 2.1.1.1'', None]))
           = [''2.1.1.1|2.1.1.63'', ''NO_EC'']"
    by (simp add: fillna_str_def extract_eval less_char_def less_eq_char_def)
  have a1: "split_mt2_main ?kx ?kt ''EC number'' ?df = Inl (ColumnNotFound ''EC number'' [''Entry''])"
    using missing_ec_column [OF h, where key_text = ?kx and key_table = ?kt
        and d = "[(''2.1.1.1'', ''O_MT'')]"] k
    by (simp add: df_columns_def)
  have a2: "assign_groups_main ?mt ''EC number'' ?df = Inl (ColumnNotFound ''EC number'' [''Entry''])"
    using missing_ec_column [OF h, where mt_text = ?mt] m
    by (simp add: df_columns_def)
  have a3: "split_by_ec_main [IntLabel 0, IntLabel 1] ?df2 ''EC number'' ''Catalytic activity'' Joined
              = Inr [''2.1.1.1|2.1.1.63'', ''NO_EC'']"
    using missing_ec_column [OF h2, where cat_col = "''Catalytic activity''"
        and cells = "[Some ''EC 2.1.1.63; 2.1.1.1'', None]" and m = Joined
        and idx = "[IntLabel 0, IntLabel 1]"] c2 e
    by simp
  have a4: "split_by_ec_main [IntLabel 0] ?df ''EC number'' ''Catalytic activity'' First
              = Inr [''NO_EC'']"
    using missing_ec_column [OF h, where cat_col = "''Catalytic activity''" and m = First
        and idx = "[IntLabel 0]"] c
    by (simp add: r)
  have a5: "split_by_ec_main [OtherLabel ''P12345'', OtherLabel ''Q67890''] ?df3
              ''EC number'' ''Catalytic activity'' Explode = Inr [''NO_EC'', ''NO_EC'']"
    using missing_ec_column [OF h3, where cat_col = "''Catalytic activity''" and m = Explode
        and idx = "[OtherLabel ''P12345'', OtherLabel ''Q67890'']"] c3
    by simp
  show ?thesis using h a1 a2 a3 a4 a5 by blast
qed

theorem empty_mapping_is_fatal_witness:
  "parse_mt_grouped ''2.1.1.1 without a section'' = [] \<and>
   assign_groups_main ''2.1.1.1 without a section'' ''EC_key''
       [(''EC_key'', [Some ''2.1.1.1''])] = Inl EmptyMapping \<and>
   load_ec_to_group ''2.1.1.1 without a section'' [(''ec'', []), (''group'', [])] = Inr [] \<and>
   split_mt2_main ''2.1.1.1 without a section'' [(''ec'', []), (''group'', [])] ''EC number''
       [(''EC number'', [Some ''2.1.1.1''])] = Inl EmptyMapping"
proof -
  have a: "parse_mt_grouped ''2.1.1.1 without a section'' = []"
    by (simp add: parse_eval)
  have b: "load_ec_to_group ''2.1.1.1 without a section'' [(''ec'', []), (''group'', [])] = Inr []"
    by (simp add: table_eval parse_eval)
  show ?thesis
    using a b
      empty_mapping_is_fatal [where mt_text = "''2.1.1.1 without a section''"
        and ec_col = "''EC_key''" and df = "[(''EC_key'', [Some ''2.1.1.1''])]"]
      empty_mapping_is_fatal [where key_text = "''2.1.1.1 without a section''"
        and key_table = "[(''ec'', []), (''group'', [])]" and ec_col = "''EC number''"
        and df = "[(''EC number'', [Some ''2.1.1.1''])]"]
    by simp
qed


end
